theory Spec2Isabelle
  imports Main "HOL-Library.AList"
begin

section \<open>The messaging bridge of \<^verbatim>\<open>src/visualization-frame.ts\<close>\<close>

text \<open>
  The class \<^verbatim>\<open>VisualizationFrame\<close> embeds an iframe in a host page, keeps a registry of
  callbacks per viewer event, dispatches inbound messages to the registered callbacks and
  posts outbound messages to the iframe's content window. The class is embedded method by
  method; what a method does to \<^verbatim>\<open>this\<close> and to the rest of the page is made explicit as
  state that the function takes and returns.
\<close>

subsection \<open>JavaScript values and the object heap\<close>

text \<open>
  Payloads have the TypeScript type \<^verbatim>\<open>any\<close>. A value is a primitive or a reference to an
  object. An object has its own properties, here enumerable and writable data properties
  with string keys, in the order in which the language enumerates them, and a prototype:
  \<^verbatim>\<open>Object.prototype\<close> (as an object literal and a parsed or cloned message have it),
  \<^verbatim>\<open>null\<close>, or another object. The heap is the list of all objects allocated so far and an
  address is an index into it, so that \<^verbatim>\<open>{}\<close> allocates at the address \<open>length h\<close>, which no
  earlier value can hold. Numbers are only ever copied by the code, never computed with.
\<close>

type_synonym addr = nat

datatype jsval =
    JUndefined
  | JNull
  | JBool bool
  | JNum int
  | JStr string
  | JRef addr

datatype prototype = ObjectPrototype | NullPrototype | PrototypeAt addr

record jsobject =
  props :: "(string \<times> jsval) list"
  proto :: prototype

type_synonym heap = "jsobject list"

text \<open>The object that \<^verbatim>\<open>{}\<close> creates.\<close>

definition empty_object :: jsobject where
  "empty_object = \<lparr>props = [], proto = ObjectPrototype\<rparr>"

definition obj_at :: "heap \<Rightarrow> addr \<Rightarrow> jsobject" where
  "obj_at h a = (if a < length h then h ! a else empty_object)"

text \<open>The names of the properties of \<^verbatim>\<open>Object.prototype\<close>. All of them are writable data
  properties but \<^verbatim>\<open>__proto__\<close>, which is an accessor: its setter replaces the prototype of
  the object it is called on.\<close>

definition Object_prototype_keys :: "string list" where
  "Object_prototype_keys =
     [''constructor'', ''__defineGetter__'', ''__defineSetter__'', ''hasOwnProperty'',
      ''__lookupGetter__'', ''__lookupSetter__'', ''isPrototypeOf'', ''propertyIsEnumerable'',
      ''toString'', ''valueOf'', ''__proto__'', ''toLocaleString'']"

text \<open>The errors the code can raise: \<^verbatim>\<open>new Error(message)\<close>, the \<^verbatim>\<open>TypeError\<close> of a
  property read on \<^verbatim>\<open>null\<close> or \<^verbatim>\<open>undefined\<close>, and whatever value a host callback throws.\<close>

datatype error =
    Error string
  | TypeError
  | Thrown jsval

subsection \<open>Callbacks and the state outside the frame\<close>

text \<open>
  A callback is a host function \<^verbatim>\<open>(data: any) => void\<close>. The frame never looks into it; all
  that the frame's code can observe of a call is whether it returns or throws. A callback is
  therefore an identity (the function object) together with its outcome on each argument.
  Every call is recorded, with the argument it received, in the log \<open>invocations\<close>.
  What a callback does to the page beyond that, calls of the frame's own public methods
  among it, is not part of the dispatch and is not modelled; a callback that never returns
  is not modelled either.
\<close>

datatype outcome = Returns | Throws jsval

datatype callback = Callback (cb_id: nat) (cb_body: "jsval \<Rightarrow> outcome")

text \<open>The host window counts the message listeners installed on it.\<close>

record world =
  heap :: heap
  invocations :: "(callback \<times> jsval) list"
  listeners :: nat

subsection \<open>The viewer events and the frame\<close>

text \<open>
  \<^verbatim>\<open>ViewerEvent\<close> is imported from \<^verbatim>\<open>./viewer-event\<close>; the class uses these eight members
  and nothing else of it. The registry \<^verbatim>\<open>callbacks\<close> is the object
  \<^verbatim>\<open>{ [key: string]: ((data: any) => void)[] }\<close>, keyed by the members, in insertion order.
\<close>

datatype ViewerEvent =
    TriggerConfigurationUpdate
  | UpdateRequirement
  | UpdateRequirements
  | UpdateImageValue
  | UpdateTextValue
  | UpdateLinkedConfigurationCardinality
  | RemoveLinkedConfiguration
  | DragStarted

text \<open>An outbound envelope \<^verbatim>\<open>{ name: name, args: ... }\<close>. The content window of the
  iframe is the list of the messages posted to it, each with its target origin; \<^verbatim>\<open>null\<close>
  is \<open>None\<close>.\<close>

record envelope =
  name :: string
  args :: jsval

type_synonym window = "(envelope \<times> string) list"

record HTMLIFrameElement =
  src :: string
  style :: "(string \<times> string) list"
  contentWindow :: "window option"

text \<open>An element of the page: whether it is an instance of \<^verbatim>\<open>HTMLElement\<close> (an SVG or
  MathML element is not), whether it is attached to the live document, and the \<^verbatim>\<open>src\<close> of
  each iframe appended to it.\<close>

record element =
  instanceof_HTMLElement :: bool
  isConnected :: bool
  appended :: "string list"

record VisualizationFrame =
  nativeElement :: HTMLIFrameElement
  container :: element
  callbacks :: "(ViewerEvent \<times> callback list) list"

subsection \<open>Registration\<close>

text \<open>
  \<^verbatim>\<open>this.callbacks[key]\<close> is \<^verbatim>\<open>undefined\<close> for a key that was never stored and an array
  (truthy, also when empty) otherwise. \<open>bucket\<close> reads the array where the code has just
  made sure that there is one.
\<close>

definition bucket :: "(ViewerEvent \<times> callback list) list \<Rightarrow> ViewerEvent \<Rightarrow> callback list" where
  "bucket cbs key = (case map_of cbs key of None \<Rightarrow> [] | Some b \<Rightarrow> b)"

definition addCallback :: "ViewerEvent \<Rightarrow> callback \<Rightarrow> VisualizationFrame \<Rightarrow> VisualizationFrame" where
  "addCallback key callback this =
     (let cbs1 = (if map_of (callbacks this) key = None
                  then AList.update key [] (callbacks this)
                  else callbacks this);
          cbs2 = AList.update key (bucket cbs1 key @ [callback]) cbs1
      in this\<lparr>callbacks := cbs2\<rparr>)"

definition onTriggerConfigurationUpdate :: "callback \<Rightarrow> VisualizationFrame \<Rightarrow> VisualizationFrame" where
  "onTriggerConfigurationUpdate callback this = addCallback TriggerConfigurationUpdate callback this"

definition onUpdateRequirement :: "callback \<Rightarrow> VisualizationFrame \<Rightarrow> VisualizationFrame" where
  "onUpdateRequirement callback this = addCallback UpdateRequirement callback this"

definition onUpdateRequirements :: "callback \<Rightarrow> VisualizationFrame \<Rightarrow> VisualizationFrame" where
  "onUpdateRequirements callback this = addCallback UpdateRequirements callback this"

definition onUpdateImageValue :: "callback \<Rightarrow> VisualizationFrame \<Rightarrow> VisualizationFrame" where
  "onUpdateImageValue callback this = addCallback UpdateImageValue callback this"

definition onUpdateTextValue :: "callback \<Rightarrow> VisualizationFrame \<Rightarrow> VisualizationFrame" where
  "onUpdateTextValue callback this = addCallback UpdateTextValue callback this"

definition onUpdateLinkedConfigurationCardinality :: "callback \<Rightarrow> VisualizationFrame \<Rightarrow> VisualizationFrame" where
  "onUpdateLinkedConfigurationCardinality callback this =
     addCallback UpdateLinkedConfigurationCardinality callback this"

definition onDragStarted :: "callback \<Rightarrow> VisualizationFrame \<Rightarrow> VisualizationFrame" where
  "onDragStarted callback this = addCallback DragStarted callback this"

definition onRemoveLinkedConfiguration :: "callback \<Rightarrow> VisualizationFrame \<Rightarrow> VisualizationFrame" where
  "onRemoveLinkedConfiguration callback this = addCallback RemoveLinkedConfiguration callback this"

text \<open>The registration method of an event kind.\<close>

fun on_method :: "ViewerEvent \<Rightarrow> callback \<Rightarrow> VisualizationFrame \<Rightarrow> VisualizationFrame" where
  "on_method TriggerConfigurationUpdate = onTriggerConfigurationUpdate"
| "on_method UpdateRequirement = onUpdateRequirement"
| "on_method UpdateRequirements = onUpdateRequirements"
| "on_method UpdateImageValue = onUpdateImageValue"
| "on_method UpdateTextValue = onUpdateTextValue"
| "on_method UpdateLinkedConfigurationCardinality = onUpdateLinkedConfigurationCardinality"
| "on_method RemoveLinkedConfiguration = onRemoveLinkedConfiguration"
| "on_method DragStarted = onDragStarted"

subsection \<open>Dispatch\<close>

text \<open>
  \<^verbatim>\<open>Array.prototype.forEach\<close> with the arrow \<^verbatim>\<open>(callback) => callback(data)\<close>: the
  callbacks are called from the first to the last, nothing catches what one of them throws,
  so the first throw ends the loop and leaves \<^verbatim>\<open>executeCallbacks\<close>.
\<close>

fun forEach :: "callback list \<Rightarrow> jsval \<Rightarrow> world \<Rightarrow> (error + unit) \<times> world" where
  "forEach [] data w = (Inr (), w)"
| "forEach (callback # rest) data w =
     (let w' = w\<lparr>invocations := invocations w @ [(callback, data)]\<rparr>
      in case cb_body callback data of
           Returns \<Rightarrow> forEach rest data w'
         | Throws e \<Rightarrow> (Inl (Thrown e), w'))"

definition executeCallbacks ::
  "ViewerEvent \<Rightarrow> jsval \<Rightarrow> VisualizationFrame \<Rightarrow> world \<Rightarrow> (error + unit) \<times> VisualizationFrame \<times> world" where
  "executeCallbacks key data this w =
     (case map_of (callbacks this) key of
        None \<Rightarrow> (Inr (), this, w)
      | Some b \<Rightarrow> (case forEach b data w of (r, w') \<Rightarrow> (r, this, w')))"

text \<open>
  A dispatch method receives a \<^verbatim>\<open>MessageEvent\<close> and reads \<^verbatim>\<open>event.data.args\<close>, where
  \<^verbatim>\<open>event.data\<close> is whatever value was posted to the host window. Reading a property of
  \<^verbatim>\<open>null\<close> or \<^verbatim>\<open>undefined\<close> throws a \<^verbatim>\<open>TypeError\<close>. On an object the read takes the own
  property, or else the first one found along the prototype chain; the keys that are read,
  \<^verbatim>\<open>args\<close> and \<^verbatim>\<open>name\<close>, are no properties of \<^verbatim>\<open>Object.prototype\<close> or of the prototype of a
  primitive, so that a read that finds nothing before it gives \<^verbatim>\<open>undefined\<close>. A prototype
  chain has no cycle, so that it visits at most \<open>length h\<close> objects.
\<close>

record MessageEvent =
  data :: jsval

fun get_inherited :: "nat \<Rightarrow> heap \<Rightarrow> prototype \<Rightarrow> string \<Rightarrow> jsval" where
  "get_inherited n h ObjectPrototype k = JUndefined"
| "get_inherited n h NullPrototype k = JUndefined"
| "get_inherited 0 h (PrototypeAt p) k = JUndefined"
| "get_inherited (Suc n) h (PrototypeAt p) k =
     (case map_of (props (obj_at h p)) k of
        Some x \<Rightarrow> x
      | None \<Rightarrow> get_inherited n h (proto (obj_at h p)) k)"

definition get_property :: "heap \<Rightarrow> jsval \<Rightarrow> string \<Rightarrow> jsval" where
  "get_property h v k =
     (case v of
        JRef a \<Rightarrow>
          (case map_of (props (obj_at h a)) k of
             Some x \<Rightarrow> x
           | None \<Rightarrow> get_inherited (length h) h (proto (obj_at h a)) k)
      | _ \<Rightarrow> JUndefined)"

definition event_data_args :: "heap \<Rightarrow> MessageEvent \<Rightarrow> error + jsval" where
  "event_data_args h event =
     (case data event of
        JUndefined \<Rightarrow> Inl TypeError
      | JNull \<Rightarrow> Inl TypeError
      | v \<Rightarrow> Inr (get_property h v ''args''))"

text \<open>The body that the eight dispatch methods share, for the member each of them names.\<close>

definition dispatch_to ::
  "ViewerEvent \<Rightarrow> MessageEvent \<Rightarrow> VisualizationFrame \<Rightarrow> world \<Rightarrow> (error + unit) \<times> VisualizationFrame \<times> world" where
  "dispatch_to key event this w =
     (case event_data_args (heap w) event of
        Inl e \<Rightarrow> (Inl e, this, w)
      | Inr a \<Rightarrow> executeCallbacks key a this w)"

definition triggerConfigurationUpdate ::
  "MessageEvent \<Rightarrow> VisualizationFrame \<Rightarrow> world \<Rightarrow> (error + unit) \<times> VisualizationFrame \<times> world" where
  "triggerConfigurationUpdate event this w = dispatch_to TriggerConfigurationUpdate event this w"

definition updateRequirement ::
  "MessageEvent \<Rightarrow> VisualizationFrame \<Rightarrow> world \<Rightarrow> (error + unit) \<times> VisualizationFrame \<times> world" where
  "updateRequirement event this w = dispatch_to UpdateRequirement event this w"

definition updateRequirements ::
  "MessageEvent \<Rightarrow> VisualizationFrame \<Rightarrow> world \<Rightarrow> (error + unit) \<times> VisualizationFrame \<times> world" where
  "updateRequirements event this w = dispatch_to UpdateRequirements event this w"

definition updateImageValue ::
  "MessageEvent \<Rightarrow> VisualizationFrame \<Rightarrow> world \<Rightarrow> (error + unit) \<times> VisualizationFrame \<times> world" where
  "updateImageValue event this w = dispatch_to UpdateImageValue event this w"

definition updateTextValue ::
  "MessageEvent \<Rightarrow> VisualizationFrame \<Rightarrow> world \<Rightarrow> (error + unit) \<times> VisualizationFrame \<times> world" where
  "updateTextValue event this w = dispatch_to UpdateTextValue event this w"

definition updateLinkedConfigurationCardinality ::
  "MessageEvent \<Rightarrow> VisualizationFrame \<Rightarrow> world \<Rightarrow> (error + unit) \<times> VisualizationFrame \<times> world" where
  "updateLinkedConfigurationCardinality event this w =
     dispatch_to UpdateLinkedConfigurationCardinality event this w"

definition removeLinkedConfiguration ::
  "MessageEvent \<Rightarrow> VisualizationFrame \<Rightarrow> world \<Rightarrow> (error + unit) \<times> VisualizationFrame \<times> world" where
  "removeLinkedConfiguration event this w = dispatch_to RemoveLinkedConfiguration event this w"

definition dragStarted ::
  "MessageEvent \<Rightarrow> VisualizationFrame \<Rightarrow> world \<Rightarrow> (error + unit) \<times> VisualizationFrame \<times> world" where
  "dragStarted event this w = dispatch_to DragStarted event this w"

text \<open>The protected dispatch method of an event kind.\<close>

fun dispatch_method ::
  "ViewerEvent \<Rightarrow> MessageEvent \<Rightarrow> VisualizationFrame \<Rightarrow> world \<Rightarrow> (error + unit) \<times> VisualizationFrame \<times> world" where
  "dispatch_method TriggerConfigurationUpdate = triggerConfigurationUpdate"
| "dispatch_method UpdateRequirement = updateRequirement"
| "dispatch_method UpdateRequirements = updateRequirements"
| "dispatch_method UpdateImageValue = updateImageValue"
| "dispatch_method UpdateTextValue = updateTextValue"
| "dispatch_method UpdateLinkedConfigurationCardinality = updateLinkedConfigurationCardinality"
| "dispatch_method RemoveLinkedConfiguration = removeLinkedConfiguration"
| "dispatch_method DragStarted = dragStarted"

subsection \<open>Sending\<close>

text \<open>
  \<^verbatim>\<open>Object.assign(o, data)\<close> reads the own enumerable properties of \<^verbatim>\<open>data\<close>, those of the
  object for a reference, one property per character, named by its index, for a string,
  none for any other primitive, and assigns each of them to \<^verbatim>\<open>o\<close> by \<^verbatim>\<open>o[k] = v\<close>, one after
  the other.
\<close>

definition digit_char :: "nat \<Rightarrow> char" where
  "digit_char d = char_of (48 + d)"

fun decimal :: "nat \<Rightarrow> string" where
  "decimal n = (if n < 10 then [digit_char n] else decimal (n div 10) @ [digit_char (n mod 10)])"

declare decimal.simps [simp del]

definition own_enumerable_properties :: "heap \<Rightarrow> jsval \<Rightarrow> (string \<times> jsval) list" where
  "own_enumerable_properties h v =
     (case v of
        JRef a \<Rightarrow> props (obj_at h a)
      | JStr s \<Rightarrow> map (\<lambda>i. (decimal i, JStr [s ! i])) [0..<length s]
      | _ \<Rightarrow> [])"

text \<open>
  The assignment \<^verbatim>\<open>o[k] = v\<close> on an object that has no own property \<^verbatim>\<open>k\<close> looks \<^verbatim>\<open>k\<close> up
  along the prototype chain. A data property found there, or nothing found, makes \<^verbatim>\<open>k\<close> an
  own property of \<^verbatim>\<open>o\<close>; an accessor found there has its setter called instead and \<^verbatim>\<open>o\<close>
  gets no own property. The only accessor there is, is \<^verbatim>\<open>__proto__\<close> of
  \<^verbatim>\<open>Object.prototype\<close>: \<open>proto_setter_inherited\<close> tells whether the lookup of \<^verbatim>\<open>__proto__\<close>
  ends at it. Its setter makes an object or \<^verbatim>\<open>null\<close> the prototype of \<^verbatim>\<open>o\<close> and ignores any
  other value. (It refuses to close a cycle; the object assigned to here is new, so that
  no chain leads to it.)
\<close>

fun proto_setter_inherited :: "nat \<Rightarrow> heap \<Rightarrow> prototype \<Rightarrow> bool" where
  "proto_setter_inherited n h ObjectPrototype = True"
| "proto_setter_inherited n h NullPrototype = False"
| "proto_setter_inherited 0 h (PrototypeAt p) = False"
| "proto_setter_inherited (Suc n) h (PrototypeAt p) =
     (map_of (props (obj_at h p)) ''__proto__'' = None \<and>
      proto_setter_inherited n h (proto (obj_at h p)))"

definition set_property :: "heap \<Rightarrow> string \<Rightarrow> jsval \<Rightarrow> jsobject \<Rightarrow> jsobject" where
  "set_property h k v ob =
     (if k = ''__proto__'' \<and> map_of (props ob) k = None \<and>
         proto_setter_inherited (length h) h (proto ob)
      then (case v of
              JRef p \<Rightarrow> ob\<lparr>proto := PrototypeAt p\<rparr>
            | JNull \<Rightarrow> ob\<lparr>proto := NullPrototype\<rparr>
            | _ \<Rightarrow> ob)
      else ob\<lparr>props := AList.update k v (props ob)\<rparr>)"

definition Object_assign :: "addr \<Rightarrow> jsval \<Rightarrow> heap \<Rightarrow> heap" where
  "Object_assign target source h =
     h[target := fold (\<lambda>(k, v) ob. set_property h k v ob)
                      (own_enumerable_properties h source) (obj_at h target)]"

text \<open>\<^verbatim>\<open>k in o\<close> holds for an own property and for one found along the prototype chain;
  \<^verbatim>\<open>delete o[k]\<close> removes an own property and does nothing else.\<close>

fun in_prototype_chain :: "nat \<Rightarrow> heap \<Rightarrow> prototype \<Rightarrow> string \<Rightarrow> bool" where
  "in_prototype_chain n h ObjectPrototype k = (k \<in> set Object_prototype_keys)"
| "in_prototype_chain n h NullPrototype k = False"
| "in_prototype_chain 0 h (PrototypeAt p) k = False"
| "in_prototype_chain (Suc n) h (PrototypeAt p) k =
     (map_of (props (obj_at h p)) k \<noteq> None \<or> in_prototype_chain n h (proto (obj_at h p)) k)"

definition has_property :: "heap \<Rightarrow> addr \<Rightarrow> string \<Rightarrow> bool" where
  "has_property h a k =
     (map_of (props (obj_at h a)) k \<noteq> None \<or>
      in_prototype_chain (length h) h (proto (obj_at h a)) k)"

definition delete_property :: "addr \<Rightarrow> string \<Rightarrow> heap \<Rightarrow> heap" where
  "delete_property a k h = h[a := (obj_at h a)\<lparr>props := AList.delete k (props (obj_at h a))\<rparr>]"

definition removeMethods :: "jsval \<Rightarrow> heap \<Rightarrow> jsval \<times> heap" where
  "removeMethods d h =
     (let ob = length h;
          h1 = h @ [empty_object];
          h2 = Object_assign ob d h1;
          h3 = (if has_property h2 ob ''_configuratorContext''
                then delete_property ob ''_configuratorContext'' h2
                else h2)
      in (JRef ob, h3))"

definition postMessage :: "envelope \<Rightarrow> string \<Rightarrow> window \<Rightarrow> window" where
  "postMessage message targetOrigin win = win @ [(message, targetOrigin)]"

definition sendMessage ::
  "string \<Rightarrow> jsval \<Rightarrow> VisualizationFrame \<Rightarrow> world \<Rightarrow> (error + unit) \<times> VisualizationFrame \<times> world" where
  "sendMessage nm d this w =
     (case contentWindow (nativeElement this) of
        None \<Rightarrow> (Inl (Error ''Native element does not have a content window''), this, w)
      | Some win \<Rightarrow>
          (case removeMethods d (heap w) of
             (a, h') \<Rightarrow>
               (Inr (),
                this\<lparr>nativeElement := (nativeElement this)
                   \<lparr>contentWindow := Some (postMessage \<lparr>name = nm, args = a\<rparr> ''*'' win)\<rparr>\<rparr>,
                w\<lparr>heap := h'\<rparr>)))"

definition sendConfigurationUpdated ::
  "jsval \<Rightarrow> VisualizationFrame \<Rightarrow> world \<Rightarrow> (error + unit) \<times> VisualizationFrame \<times> world" where
  "sendConfigurationUpdated configuration this w =
     sendMessage ''elfsquad.configurationUpdated'' configuration this w"

definition sendStepChanged ::
  "jsval \<Rightarrow> VisualizationFrame \<Rightarrow> world \<Rightarrow> (error + unit) \<times> VisualizationFrame \<times> world" where
  "sendStepChanged step this w = sendMessage ''elfsquad.stepChanged'' step this w"

subsection \<open>Construction\<close>

text \<open>
  \<^verbatim>\<open>options.container\<close> is a selector string or an element. The document is given by what
  \<^verbatim>\<open>document.querySelector\<close> returns for a selector: an element, or \<^verbatim>\<open>null\<close>. A string
  that is no valid selector, for which \<^verbatim>\<open>querySelector\<close> itself throws, is outside the model.
\<close>

datatype container_option = Selector string | ElementHandle element

record VisualizationFrameOptions =
  options_container :: container_option
  url :: string

type_synonym document = "string \<Rightarrow> element option"

definition getContainer :: "document \<Rightarrow> VisualizationFrameOptions \<Rightarrow> error + element" where
  "getContainer doc options =
     (case options_container options of
        Selector s \<Rightarrow>
          (case doc s of
             None \<Rightarrow> Inl (Error ''Container not found'')
           | Some el \<Rightarrow>
               if \<not> instanceof_HTMLElement el
               then Inl (Error ''Container must be an HTMLElement'')
               else Inr el)
      | ElementHandle el \<Rightarrow> Inr el)"

text \<open>
  \<^verbatim>\<open>render\<close> creates the iframe, sets its source and style and appends it to the container.
  An iframe has a content window from the moment it is inserted into a connected document,
  and none while its container is detached.
\<close>

definition render :: "VisualizationFrameOptions \<Rightarrow> element \<Rightarrow> HTMLIFrameElement \<times> element" where
  "render options c =
     (\<lparr>src = url options,
       style = [(''width'', ''100%''), (''height'', ''100%''), (''border'', ''none''),
                (''margin'', ''0''), (''padding'', ''0''), (''display'', ''block'')],
       contentWindow = (if isConnected c then Some [] else None)\<rparr>,
      c\<lparr>appended := appended c @ [url options]\<rparr>)"

text \<open>
  Modelled from the spec: \<^verbatim>\<open>registerEventListeners\<close> is inherited from \<^verbatim>\<open>EventHandler\<close>
  (\<^verbatim>\<open>./event-handler\<close>), which is not among the sources. The spec's Message Receiver:
  ``Install(channel): attaches one listener to channel''.
\<close>

definition registerEventListeners :: "world \<Rightarrow> world" where
  "registerEventListeners w = w\<lparr>listeners := Suc (listeners w)\<rparr>"

definition new_VisualizationFrame ::
  "document \<Rightarrow> VisualizationFrameOptions \<Rightarrow> world \<Rightarrow> (error + VisualizationFrame) \<times> world" where
  "new_VisualizationFrame doc options w =
     (case getContainer doc options of
        Inl e \<Rightarrow> (Inl e, w)
      | Inr c \<Rightarrow>
          (case render options c of
             (iframe, c') \<Rightarrow>
               (Inr \<lparr>nativeElement = iframe, container = c', callbacks = []\<rparr>,
                registerEventListeners w)))"

text \<open>
  Modelled from the spec: the listener that \<^verbatim>\<open>EventHandler\<close> installs is not among the
  sources. The spec's Message Receiver: ``On message arrived(envelope): reads envelope.name;
  if it matches one of the fixed protocol name strings, invokes the corresponding dispatch
  method with envelope.args; if it does not match any known name, the message is silently
  ignored''; and ``malformed envelopes (missing name) must not throw past the listener
  boundary; treat as unmatched and ignore''. The spec does not give the name strings, so
  the fixed string-to-kind table is a parameter.
\<close>

definition envelope_name :: "heap \<Rightarrow> jsval \<Rightarrow> string option" where
  "envelope_name h v = (case get_property h v ''name'' of JStr s \<Rightarrow> Some s | _ \<Rightarrow> None)"

definition messageArrived ::
  "(string \<Rightarrow> ViewerEvent option) \<Rightarrow> MessageEvent \<Rightarrow> VisualizationFrame \<Rightarrow> world
     \<Rightarrow> (error + unit) \<times> VisualizationFrame \<times> world" where
  "messageArrived kind_of_name event this w =
     (case envelope_name (heap w) (data event) of
        None \<Rightarrow> (Inr (), this, w)
      | Some nm \<Rightarrow>
          (case kind_of_name nm of
             None \<Rightarrow> (Inr (), this, w)
           | Some key \<Rightarrow> dispatch_method key event this w))"

subsection \<open>Notions used to state the properties\<close>

text \<open>The callbacks of a list that a \<^verbatim>\<open>forEach\<close> over it reaches with the argument \<open>d\<close>:
  all of them up to and including the first one that throws.\<close>

fun called :: "callback list \<Rightarrow> jsval \<Rightarrow> callback list" where
  "called [] d = []"
| "called (c # cs) d = c # (case cb_body c d of Returns \<Rightarrow> called cs d | Throws e \<Rightarrow> [])"

text \<open>A sequence of registration calls on a frame, first to last.\<close>

fun register_all :: "(ViewerEvent \<times> callback) list \<Rightarrow> VisualizationFrame \<Rightarrow> VisualizationFrame" where
  "register_all [] this = this"
| "register_all ((key, callback) # regs) this = register_all regs (on_method key callback this)"

text \<open>What \<^verbatim>\<open>Object.assign\<close> makes of a new empty object at the end of the heap.\<close>

definition assigned :: "heap \<Rightarrow> jsval \<Rightarrow> jsobject" where
  "assigned h d =
     fold (\<lambda>(k, v) ob. set_property (h @ [empty_object]) k v ob)
          (own_enumerable_properties h d) empty_object"

text \<open>The prototype that the setter of \<^verbatim>\<open>__proto__\<close> leaves to a new object, after the
  assignment of the properties \<open>fs\<close>.\<close>

definition assigned_prototype :: "(string \<times> jsval) list \<Rightarrow> prototype" where
  "assigned_prototype fs =
     (case map_of fs ''__proto__'' of
        Some (JRef p) \<Rightarrow> PrototypeAt p
      | Some JNull \<Rightarrow> NullPrototype
      | _ \<Rightarrow> ObjectPrototype)"

text \<open>The fields of a payload that a send method copies.\<close>

definition copied :: "(string \<times> jsval) list \<Rightarrow> (string \<times> jsval) list" where
  "copied fs =
     filter (\<lambda>p. fst p \<noteq> ''_configuratorContext'' \<and> fst p \<noteq> ''__proto__'') fs"

text \<open>The object that the world \<open>w'\<close> holds at the first address that \<open>w\<close> has not.\<close>

definition allocated :: "world \<Rightarrow> world \<Rightarrow> jsobject" where
  "allocated w' w = heap w' ! length (heap w)"

text \<open>The frame after one more message has been posted to its content window \<open>win\<close>.\<close>

definition posted :: "VisualizationFrame \<Rightarrow> window \<Rightarrow> envelope \<Rightarrow> VisualizationFrame" where
  "posted this win message =
     this\<lparr>nativeElement := (nativeElement this)\<lparr>contentWindow := Some (win @ [(message, ''*'')])\<rparr>\<rparr>"

text \<open>The spec's names for the errors: the code raises a plain \<^verbatim>\<open>Error\<close> with a message in
  each of these situations.\<close>

definition ContainerResolutionError :: "error \<Rightarrow> bool" where
  "ContainerResolutionError e \<longleftrightarrow>
     e = Error ''Container not found'' \<or> e = Error ''Container must be an HTMLElement''"

definition NoChannelError :: "error \<Rightarrow> bool" where
  "NoChannelError e \<longleftrightarrow> e = Error ''Native element does not have a content window''"

subsection \<open>A page, a frame and some payloads\<close>

definition showroom :: element where
  "showroom = \<lparr>instanceof_HTMLElement = True, isConnected = True, appended = []\<rparr>"

definition svg_icon :: element where
  "svg_icon = \<lparr>instanceof_HTMLElement = False, isConnected = True, appended = []\<rparr>"

definition example_document :: document where
  "example_document s =
     (if s = ''#showroom'' then Some showroom
      else if s = ''#icon'' then Some svg_icon
      else None)"

definition example_options :: VisualizationFrameOptions where
  "example_options = \<lparr>options_container = Selector ''#showroom'', url = ''https://viewer.example''\<rparr>"

definition example_frame :: VisualizationFrame where
  "example_frame =
     \<lparr>nativeElement =
        \<lparr>src = ''https://viewer.example'',
         style = [(''width'', ''100%''), (''height'', ''100%''), (''border'', ''none''),
                  (''margin'', ''0''), (''padding'', ''0''), (''display'', ''block'')],
         contentWindow = Some []\<rparr>,
      container = showroom\<lparr>appended := [''https://viewer.example'']\<rparr>,
      callbacks = []\<rparr>"

definition detached_frame :: VisualizationFrame where
  "detached_frame = example_frame\<lparr>nativeElement := (nativeElement example_frame)\<lparr>contentWindow := None\<rparr>\<rparr>"

text \<open>An object with the prototype \<^verbatim>\<open>Object.prototype\<close>.\<close>

definition plain :: "(string \<times> jsval) list \<Rightarrow> jsobject" where
  "plain fs = \<lparr>props = fs, proto = ObjectPrototype\<rparr>"

text \<open>The heap holds, in this order: an inbound envelope \<^verbatim>\<open>{ name, args }\<close>, its payload, a
  configuration with its back-reference, the context it refers to, a step, a step that
  carries a field named like the back-reference, and three objects with an own property
  \<^verbatim>\<open>__proto__\<close>, as \<^verbatim>\<open>JSON.parse\<close> makes them: a configuration, a step and a payload whose
  \<^verbatim>\<open>__proto__\<close> is an object.\<close>

definition example_heap :: heap where
  "example_heap =
     [plain [(''name'', JStr ''dragStarted''), (''args'', JRef 1)],
      plain [(''featureId'', JStr ''f1''), (''value'', JNum 3)],
      plain [(''id'', JStr ''c1''), (''_configuratorContext'', JRef 3), (''steps'', JRef 4)],
      plain [],
      plain [(''id'', JStr ''s1''), (''title'', JStr ''Colour'')],
      plain [(''_configuratorContext'', JNum 1), (''id'', JStr ''s2'')],
      plain [(''__proto__'', JNum 5), (''id'', JStr ''x'')],
      plain [(''__proto__'', JNum 5), (''_configuratorContext'', JNum 1), (''id'', JStr ''s3'')],
      plain [(''__proto__'', JRef 2), (''id'', JStr ''y'')]]"

definition example_world :: world where
  "example_world = \<lparr>heap = example_heap, invocations = [], listeners = 1\<rparr>"

definition example_event :: MessageEvent where
  "example_event = \<lparr>data = JRef 0\<rparr>"

definition returning_callback :: callback where
  "returning_callback = Callback 1 (\<lambda>d. Returns)"

definition other_callback :: callback where
  "other_callback = Callback 2 (\<lambda>d. Returns)"

definition throwing_callback :: callback where
  "throwing_callback = Callback 3 (\<lambda>d. Throws (JStr ''boom''))"

definition example_table :: "string \<Rightarrow> ViewerEvent option" where
  "example_table nm = (if nm = ''dragStarted'' then Some DragStarted else None)"

section \<open>Properties\<close>

subsection \<open>Registry and dispatch: auxiliary facts\<close>

lemma on_method_addCallback: "on_method K = addCallback K"
  by (cases K)
     (auto simp: fun_eq_iff onTriggerConfigurationUpdate_def onUpdateRequirement_def
        onUpdateRequirements_def onUpdateImageValue_def onUpdateTextValue_def
        onUpdateLinkedConfigurationCardinality_def onRemoveLinkedConfiguration_def
        onDragStarted_def)

lemma dispatch_method_dispatch_to: "dispatch_method K = dispatch_to K"
  by (cases K)
     (auto simp: fun_eq_iff triggerConfigurationUpdate_def updateRequirement_def
        updateRequirements_def updateImageValue_def updateTextValue_def
        updateLinkedConfigurationCardinality_def removeLinkedConfiguration_def
        dragStarted_def)

lemma map_of_addCallback:
  "map_of (callbacks (addCallback K c f)) = (map_of (callbacks f))(K \<mapsto> bucket (callbacks f) K @ [c])"
  by (simp add: addCallback_def Let_def bucket_def update_conv' split: option.splits)

lemma addCallback_other_fields:
  "nativeElement (addCallback K c f) = nativeElement f"
  "container (addCallback K c f) = container f"
  by (simp_all add: addCallback_def Let_def)

lemma bucket_addCallback:
  "bucket (callbacks (addCallback K c f)) K' =
     (if K' = K then bucket (callbacks f) K @ [c] else bucket (callbacks f) K')"
  by (simp add: bucket_def map_of_addCallback)

lemma bucket_register_all:
  "bucket (callbacks (register_all regs f)) K =
     bucket (callbacks f) K @ map snd (filter (\<lambda>r. fst r = K) regs)"
  by (induction regs f rule: register_all.induct)
     (auto simp: on_method_addCallback bucket_addCallback)

lemma forEach_world:
  "snd (forEach cs d w) = w\<lparr>invocations := invocations w @ map (\<lambda>c. (c, d)) (called cs d)\<rparr>"
  by (induction cs arbitrary: w) (auto simp: Let_def split: outcome.splits)

lemma called_all_return: "\<forall>c\<in>set cs. cb_body c d = Returns \<Longrightarrow> called cs d = cs"
  by (induction cs) auto

lemma forEach_all_return: "\<forall>c\<in>set cs. cb_body c d = Returns \<Longrightarrow> fst (forEach cs d w) = Inr ()"
  by (induction cs arbitrary: w) (auto simp: Let_def)

lemma executeCallbacks_frame: "fst (snd (executeCallbacks K d f w)) = f"
  by (simp add: executeCallbacks_def split: option.splits prod.splits)

lemma executeCallbacks_world:
  "snd (snd (executeCallbacks K d f w)) =
     w\<lparr>invocations := invocations w @ map (\<lambda>c. (c, d)) (called (bucket (callbacks f) K) d)\<rparr>"
  by (simp add: executeCallbacks_def bucket_def case_prod_unfold forEach_world split: option.splits)

lemma executeCallbacks_unregistered:
  "map_of (callbacks f) K = None \<Longrightarrow> executeCallbacks K d f w = (Inr (), f, w)"
  by (simp add: executeCallbacks_def)

lemma executeCallbacks_all_return:
  "\<forall>c\<in>set (bucket (callbacks f) K). cb_body c d = Returns \<Longrightarrow>
     executeCallbacks K d f w =
       (Inr (), f, w\<lparr>invocations := invocations w @ map (\<lambda>c. (c, d)) (bucket (callbacks f) K)\<rparr>)"
  using forEach_all_return [of "bucket (callbacks f) K" d w]
        executeCallbacks_world [of K d f w] executeCallbacks_frame [of K d f w]
  by (cases "executeCallbacks K d f w")
     (auto simp: called_all_return executeCallbacks_def bucket_def case_prod_unfold split: option.splits)

lemma executeCallbacks_same_bucket:
  "map_of (callbacks f) K = map_of (callbacks f') K \<Longrightarrow>
     fst (executeCallbacks K d f w) = fst (executeCallbacks K d f' w) \<and>
     snd (snd (executeCallbacks K d f w)) = snd (snd (executeCallbacks K d f' w))"
  by (simp add: executeCallbacks_def case_prod_unfold split: option.splits)

lemma dispatch_to_args:
  "event_data_args (heap w) ev = Inr P \<Longrightarrow> dispatch_to K ev f w = executeCallbacks K P f w"
  by (simp add: dispatch_to_def)

lemma dispatch_to_frame: "fst (snd (dispatch_to K ev f w)) = f"
  by (simp add: dispatch_to_def executeCallbacks_frame split: sum.splits)

lemma new_example_frame:
  "new_VisualizationFrame example_document example_options w =
     (Inr example_frame, w\<lparr>listeners := Suc (listeners w)\<rparr>)"
  by (simp add: new_VisualizationFrame_def getContainer_def render_def registerEventListeners_def
      example_document_def example_options_def example_frame_def showroom_def)

lemma example_event_args: "event_data_args (heap example_world) example_event = Inr (JRef 1)"
  by (simp add: event_data_args_def get_property_def obj_at_def example_world_def example_heap_def
      example_event_def plain_def)

subsection \<open>Registering and dispatching\<close>

text \<open>
  Claim C1. On a frame that has nothing registered for the event kind \<open>K\<close>, as a newly
  constructed frame has, registering the callback \<open>C\<close> once through the registration
  method of \<open>K\<close> and then calling the dispatch method of \<open>K\<close> with an event that carries
  the payload \<open>P\<close> calls \<open>C\<close> exactly once, with \<open>P\<close>: the log of invocations grows by the
  single entry \<open>(C, P)\<close>. The dispatch ends as that one call ends.
\<close>
theorem register_once_dispatch_once:
  assumes "map_of (callbacks f) K = None"
      and "event_data_args (heap w) ev = Inr P"
  shows "dispatch_method K ev (on_method K C f) w =
           ((case cb_body C P of Returns \<Rightarrow> Inr () | Throws e \<Rightarrow> Inl (Thrown e)),
            on_method K C f,
            w\<lparr>invocations := invocations w @ [(C, P)]\<rparr>)"
proof -
  have "map_of (callbacks (addCallback K C f)) K = Some [C]"
    using assms(1) by (simp add: map_of_addCallback bucket_def)
  then have "executeCallbacks K P (addCallback K C f) w =
      ((case cb_body C P of Returns \<Rightarrow> Inr () | Throws e \<Rightarrow> Inl (Thrown e)),
       addCallback K C f, w\<lparr>invocations := invocations w @ [(C, P)]\<rparr>)"
    by (simp add: executeCallbacks_def Let_def split: outcome.splits)
  then show ?thesis
    using assms(2) by (simp add: dispatch_method_dispatch_to on_method_addCallback dispatch_to_args)
qed

text \<open>The frame that the constructor builds for the example page, with one callback.\<close>

theorem register_once_dispatch_once_witness:
  "new_VisualizationFrame example_document example_options (example_world\<lparr>listeners := 0\<rparr>) =
     (Inr example_frame, example_world) \<and>
   map_of (callbacks example_frame) UpdateRequirement = None \<and>
   event_data_args (heap example_world) example_event = Inr (JRef 1) \<and>
   dispatch_method UpdateRequirement example_event
       (on_method UpdateRequirement returning_callback example_frame) example_world =
     (Inr (), on_method UpdateRequirement returning_callback example_frame,
      example_world\<lparr>invocations := [(returning_callback, JRef 1)]\<rparr>)"
proof -
  have h1: "map_of (callbacks example_frame) UpdateRequirement = None"
    by (simp add: example_frame_def)
  have h2: "event_data_args (heap example_world) example_event = Inr (JRef 1)"
    by (rule example_event_args)
  have h3: "new_VisualizationFrame example_document example_options (example_world\<lparr>listeners := 0\<rparr>) =
     (Inr example_frame, example_world)"
    by (simp add: new_example_frame example_world_def)
  show ?thesis
    using register_once_dispatch_once [OF h1 h2, of returning_callback] h1 h2 h3
    by (simp add: returning_callback_def example_world_def)
qed

text \<open>
  Claim C4, as amended. On a frame that has nothing registered for \<open>K\<close>, registering the
  same callback \<open>C\<close> twice and then dispatching \<open>K\<close> once with the payload \<open>P\<close> calls \<open>C\<close>
  exactly twice, both times with the same value \<open>P\<close>, when \<open>C\<close> returns from the call; when
  \<open>C\<close> throws, the first call is the only one and the dispatch ends with what \<open>C\<close> threw.
\<close>
theorem register_twice_dispatch_once:
  assumes "map_of (callbacks f) K = None"
      and "event_data_args (heap w) ev = Inr P"
  shows "dispatch_method K ev (on_method K C (on_method K C f)) w =
           (case cb_body C P of
              Returns \<Rightarrow>
                (Inr (), on_method K C (on_method K C f),
                 w\<lparr>invocations := invocations w @ [(C, P), (C, P)]\<rparr>)
            | Throws e \<Rightarrow>
                (Inl (Thrown e), on_method K C (on_method K C f),
                 w\<lparr>invocations := invocations w @ [(C, P)]\<rparr>))"
proof -
  have "map_of (callbacks (addCallback K C (addCallback K C f))) K = Some [C, C]"
    using assms(1) by (simp add: map_of_addCallback bucket_def)
  then have "executeCallbacks K P (addCallback K C (addCallback K C f)) w =
      (case cb_body C P of
              Returns \<Rightarrow>
                (Inr (), addCallback K C (addCallback K C f),
                 w\<lparr>invocations := invocations w @ [(C, P), (C, P)]\<rparr>)
            | Throws e \<Rightarrow>
                (Inl (Thrown e), addCallback K C (addCallback K C f),
                 w\<lparr>invocations := invocations w @ [(C, P)]\<rparr>))"
    by (simp add: executeCallbacks_def Let_def split: outcome.splits)
  then show ?thesis
    using assms(2)
    by (simp add: dispatch_method_dispatch_to on_method_addCallback dispatch_to_args
        split: outcome.splits)
qed

text \<open>A callback that returns, registered twice for \<^verbatim>\<open>DragStarted\<close>.\<close>

theorem register_twice_dispatch_once_witness:
  "map_of (callbacks example_frame) DragStarted = None \<and>
   event_data_args (heap example_world) example_event = Inr (JRef 1) \<and>
   dispatch_method DragStarted example_event
       (on_method DragStarted returning_callback (on_method DragStarted returning_callback example_frame))
       example_world =
     (Inr (),
      on_method DragStarted returning_callback (on_method DragStarted returning_callback example_frame),
      example_world\<lparr>invocations := [(returning_callback, JRef 1), (returning_callback, JRef 1)]\<rparr>)"
proof -
  have h1: "map_of (callbacks example_frame) DragStarted = None"
    by (simp add: example_frame_def)
  have h2: "event_data_args (heap example_world) example_event = Inr (JRef 1)"
    by (rule example_event_args)
  show ?thesis
    using register_twice_dispatch_once [OF h1 h2, of returning_callback] h1 h2
    by (simp add: returning_callback_def example_world_def)
qed

text \<open>A callback that throws, registered twice for \<^verbatim>\<open>DragStarted\<close>, is called once by
  one dispatch, not twice.\<close>

theorem register_twice_throwing_counterexample:
  "invocations (snd (snd (dispatch_method DragStarted example_event
       (on_method DragStarted throwing_callback (on_method DragStarted throwing_callback example_frame))
       example_world))) = [(throwing_callback, JRef 1)] \<and>
   fst (dispatch_method DragStarted example_event
       (on_method DragStarted throwing_callback (on_method DragStarted throwing_callback example_frame))
       example_world) = Inl (Thrown (JStr ''boom''))"
proof -
  have b: "map_of (callbacks (addCallback DragStarted throwing_callback
             (addCallback DragStarted throwing_callback example_frame))) DragStarted =
           Some [throwing_callback, throwing_callback]"
    by (simp add: map_of_addCallback bucket_def example_frame_def)
  have c: "cb_body throwing_callback x = Throws (JStr ''boom'')" for x
    by (simp add: throwing_callback_def)
  have d: "dispatch_method DragStarted example_event f example_world =
             executeCallbacks DragStarted (JRef 1) f example_world" for f
    by (simp add: dragStarted_def dispatch_to_args example_event_args)
  show ?thesis
    unfolding on_method.simps onDragStarted_def d
    by (simp add: executeCallbacks_def b c Let_def example_world_def)
qed

text \<open>
  Claim C5, as amended. The bucket of \<open>K\<close> holds the callbacks registered for \<open>K\<close> in the
  order of their registration, for every sequence of registration calls. Dispatching \<open>K\<close>
  with the payload \<open>P\<close> leaves the frame as it is and calls the callbacks of the bucket in
  that order, each with the same value \<open>P\<close>, up to and including the first one that throws;
  when every callback of the bucket returns, all of them are called and the dispatch
  returns.
\<close>
theorem dispatch_in_registration_order:
  assumes "event_data_args (heap w) ev = Inr P"
  shows "bucket (callbacks (register_all regs f)) K =
           bucket (callbacks f) K @ map snd (filter (\<lambda>r. fst r = K) regs) \<and>
         snd (dispatch_method K ev f w) =
           (f, w\<lparr>invocations := invocations w @
                   map (\<lambda>c. (c, P)) (called (bucket (callbacks f) K) P)\<rparr>) \<and>
         ((\<forall>c\<in>set (bucket (callbacks f) K). cb_body c P = Returns) \<longrightarrow>
            dispatch_method K ev f w =
              (Inr (), f, w\<lparr>invocations := invocations w @
                   map (\<lambda>c. (c, P)) (bucket (callbacks f) K)\<rparr>))"
proof -
  have d: "dispatch_method K ev f w = executeCallbacks K P f w"
    using assms by (simp add: dispatch_method_dispatch_to dispatch_to_args)
  have "snd (executeCallbacks K P f w) =
          (f, w\<lparr>invocations := invocations w @
                   map (\<lambda>c. (c, P)) (called (bucket (callbacks f) K) P)\<rparr>)"
    using executeCallbacks_frame [of K P f w] executeCallbacks_world [of K P f w]
    by (cases "executeCallbacks K P f w") simp
  then show ?thesis
    by (simp add: d bucket_register_all executeCallbacks_all_return)
qed

text \<open>Three registrations, two of them for \<^verbatim>\<open>DragStarted\<close>, then a dispatch of it.\<close>

theorem dispatch_in_registration_order_witness:
  "event_data_args (heap example_world) example_event = Inr (JRef 1) \<and>
   bucket (callbacks (register_all
       [(DragStarted, returning_callback), (UpdateTextValue, throwing_callback),
        (DragStarted, other_callback)] example_frame)) DragStarted =
     [returning_callback, other_callback] \<and>
   cb_body returning_callback (JRef 1) = Returns \<and>
   cb_body other_callback (JRef 1) = Returns \<and>
   dispatch_method DragStarted example_event
       (register_all [(DragStarted, returning_callback), (UpdateTextValue, throwing_callback),
          (DragStarted, other_callback)] example_frame) example_world =
     (Inr (),
      register_all [(DragStarted, returning_callback), (UpdateTextValue, throwing_callback),
          (DragStarted, other_callback)] example_frame,
      example_world\<lparr>invocations := [(returning_callback, JRef 1), (other_callback, JRef 1)]\<rparr>)"
proof -
  let ?regs = "[(DragStarted, returning_callback), (UpdateTextValue, throwing_callback),
        (DragStarted, other_callback)]"
  have h: "event_data_args (heap example_world) example_event = Inr (JRef 1)"
    by (rule example_event_args)
  have e: "bucket (callbacks example_frame) DragStarted = []"
    by (simp add: bucket_def example_frame_def)
  have b: "bucket (callbacks (register_all ?regs example_frame)) DragStarted =
             [returning_callback, other_callback]"
    using dispatch_in_registration_order [OF h, of ?regs example_frame DragStarted] e by simp
  have r: "\<forall>c\<in>set [returning_callback, other_callback]. cb_body c (JRef 1) = Returns"
    by (simp add: returning_callback_def other_callback_def)
  show ?thesis
    using dispatch_in_registration_order [OF h, of "[]" "register_all ?regs example_frame" DragStarted]
      h b r
    by (simp add: example_world_def)
qed

text \<open>With a callback that throws registered first, the second callback of the bucket
  is not called.\<close>

theorem dispatch_stops_at_throw_counterexample:
  "bucket (callbacks (register_all
       [(DragStarted, throwing_callback), (DragStarted, returning_callback)] example_frame))
     DragStarted = [throwing_callback, returning_callback] \<and>
   invocations (snd (snd (dispatch_method DragStarted example_event
       (register_all [(DragStarted, throwing_callback), (DragStarted, returning_callback)]
          example_frame) example_world))) = [(throwing_callback, JRef 1)]"
proof -
  let ?f = "register_all [(DragStarted, throwing_callback), (DragStarted, returning_callback)]
          example_frame"
  have b: "bucket (callbacks ?f) DragStarted = [throwing_callback, returning_callback]"
    unfolding bucket_register_all by (simp add: bucket_def example_frame_def)
  have c: "called [throwing_callback, returning_callback] x = [throwing_callback]" for x
    by (simp add: throwing_callback_def)
  have d: "dispatch_method DragStarted example_event ?f example_world =
             executeCallbacks DragStarted (JRef 1) ?f example_world"
    by (simp add: dragStarted_def dispatch_to_args example_event_args)
  show ?thesis
    unfolding d executeCallbacks_world b c by (simp add: example_world_def)
qed

text \<open>
  Claim C6. For an event kind without a registered callback, \<^verbatim>\<open>executeCallbacks\<close> and the
  dispatch method of the kind, called with an event that carries a payload, return without
  an error, call nothing and change nothing. An inbound message whose name maps to no
  kind, or that has no name, is ignored by the receiver in the same way.
\<close>
theorem nothing_to_dispatch:
  "(map_of (callbacks f) K = None \<longrightarrow> executeCallbacks K P f w = (Inr (), f, w)) \<and>
   (map_of (callbacks f) K = None \<and> event_data_args (heap w) ev = Inr P \<longrightarrow>
      dispatch_method K ev f w = (Inr (), f, w)) \<and>
   ((\<forall>nm. envelope_name (heap w) (data ev) = Some nm \<longrightarrow> kind_of_name nm = None) \<longrightarrow>
      messageArrived kind_of_name ev f w = (Inr (), f, w))"
  by (auto simp: executeCallbacks_unregistered dispatch_method_dispatch_to dispatch_to_args
      messageArrived_def split: option.splits)

text \<open>A frame with a callback for \<^verbatim>\<open>DragStarted\<close> only: a dispatch of another kind, a
  message without a name, and a message whose name the table does not know.\<close>

theorem nothing_to_dispatch_witness:
  "map_of (callbacks (onDragStarted returning_callback example_frame)) UpdateRequirement = None \<and>
   event_data_args (heap example_world) example_event = Inr (JRef 1) \<and>
   dispatch_method UpdateRequirement example_event
       (onDragStarted returning_callback example_frame) example_world =
     (Inr (), onDragStarted returning_callback example_frame, example_world) \<and>
   envelope_name (heap example_world) (data \<lparr>data = JRef 4\<rparr>) = None \<and>
   messageArrived example_table \<lparr>data = JRef 4\<rparr>
       (onDragStarted returning_callback example_frame) example_world =
     (Inr (), onDragStarted returning_callback example_frame, example_world) \<and>
   envelope_name (heap example_world) (data example_event) = Some ''dragStarted'' \<and>
   (\<lambda>nm. None) ''dragStarted'' = (None :: ViewerEvent option) \<and>
   messageArrived (\<lambda>nm. None) example_event
       (onDragStarted returning_callback example_frame) example_world =
     (Inr (), onDragStarted returning_callback example_frame, example_world)"
proof -
  let ?f = "onDragStarted returning_callback example_frame"
  have h1: "map_of (callbacks ?f) UpdateRequirement = None"
    by (simp add: onDragStarted_def map_of_addCallback example_frame_def)
  have h2: "event_data_args (heap example_world) example_event = Inr (JRef 1)"
    by (rule example_event_args)
  have h3: "envelope_name (heap example_world) (data \<lparr>data = JRef 4\<rparr>) = None"
    by (simp add: envelope_name_def get_property_def obj_at_def example_world_def example_heap_def
        plain_def)
  have h4: "envelope_name (heap example_world) (data example_event) = Some ''dragStarted''"
    by (simp add: envelope_name_def get_property_def obj_at_def example_world_def example_heap_def
        example_event_def plain_def)
  show ?thesis
    using nothing_to_dispatch [of ?f UpdateRequirement "JRef 1" example_world example_event example_table]
      nothing_to_dispatch [of ?f UpdateRequirement "JRef 1" example_world "\<lparr>data = JRef 4\<rparr>" example_table]
      nothing_to_dispatch [of ?f UpdateRequirement "JRef 1" example_world example_event "\<lambda>nm. None"]
      h1 h2 h3 h4
    by simp
qed

text \<open>
  Claim C9. A registration call appends the callback to the bucket of its event kind and
  leaves every other bucket, the iframe and the container as they were. A dispatch call
  returns the frame unchanged, and its result and its effect depend on the bucket of its
  own event kind only: two frames that agree on that bucket give the same result, whatever
  their other buckets hold.
\<close>
theorem registry_invariant:
  "bucket (callbacks (on_method K C f)) K = bucket (callbacks f) K @ [C] \<and>
   (\<forall>K'. K' \<noteq> K \<longrightarrow> map_of (callbacks (on_method K C f)) K' = map_of (callbacks f) K') \<and>
   nativeElement (on_method K C f) = nativeElement f \<and>
   container (on_method K C f) = container f \<and>
   fst (snd (dispatch_method K ev f w)) = f \<and>
   (map_of (callbacks f') K = map_of (callbacks f) K \<longrightarrow>
      fst (dispatch_method K ev f' w) = fst (dispatch_method K ev f w) \<and>
      snd (snd (dispatch_method K ev f' w)) = snd (snd (dispatch_method K ev f w)))"
proof -
  have "map_of (callbacks f') K = map_of (callbacks f) K \<Longrightarrow>
      fst (dispatch_to K ev f' w) = fst (dispatch_to K ev f w) \<and>
      snd (snd (dispatch_to K ev f' w)) = snd (snd (dispatch_to K ev f w))"
    using executeCallbacks_same_bucket [of f' K f _ w]
    by (simp add: dispatch_to_def split: sum.splits)
  then show ?thesis
    by (simp add: on_method_addCallback dispatch_method_dispatch_to bucket_addCallback
        map_of_addCallback addCallback_other_fields dispatch_to_frame)
qed

text \<open>Registering for one kind leaves the other kind's bucket alone, and a dispatch of
  \<^verbatim>\<open>DragStarted\<close> does not see a callback registered for \<^verbatim>\<open>UpdateTextValue\<close>.\<close>

theorem registry_invariant_witness:
  "UpdateTextValue \<noteq> DragStarted \<and>
   bucket (callbacks (on_method DragStarted returning_callback example_frame)) DragStarted =
     [returning_callback] \<and>
   map_of (callbacks (on_method DragStarted returning_callback example_frame)) UpdateTextValue =
     map_of (callbacks example_frame) UpdateTextValue \<and>
   map_of (callbacks (on_method UpdateTextValue other_callback example_frame)) DragStarted =
     map_of (callbacks example_frame) DragStarted \<and>
   dispatch_method DragStarted example_event
       (on_method UpdateTextValue other_callback example_frame) example_world =
     (Inr (), on_method UpdateTextValue other_callback example_frame, example_world)"
proof -
  let ?g = "on_method UpdateTextValue other_callback example_frame"
  let ?r = "dispatch_method DragStarted example_event ?g example_world"
  note reg = registry_invariant [of DragStarted returning_callback example_frame]
  note reg' = registry_invariant [of UpdateTextValue other_callback example_frame]
  note dis = registry_invariant [of DragStarted returning_callback example_frame
      example_event example_world ?g]
  note dis' = registry_invariant [of DragStarted returning_callback ?g example_event example_world]
  have ne: "UpdateTextValue \<noteq> DragStarted"
    by simp
  have e: "bucket (callbacks example_frame) DragStarted = []"
    by (simp add: bucket_def example_frame_def)
  have b: "bucket (callbacks (on_method DragStarted returning_callback example_frame)) DragStarted =
             [returning_callback]"
    using reg [THEN conjunct1] by (simp only: e append_Nil)
  have o: "map_of (callbacks (on_method DragStarted returning_callback example_frame)) UpdateTextValue =
             map_of (callbacks example_frame) UpdateTextValue"
    using reg [THEN conjunct2, THEN conjunct1] ne by blast
  have s: "map_of (callbacks ?g) DragStarted = map_of (callbacks example_frame) DragStarted"
    using reg' [THEN conjunct2, THEN conjunct1] ne by blast
  have d: "dispatch_method DragStarted example_event example_frame example_world =
             (Inr (), example_frame, example_world)"
    by (simp add: dragStarted_def dispatch_to_args example_event_args executeCallbacks_unregistered
        example_frame_def)
  have same: "fst ?r = fst (dispatch_method DragStarted example_event example_frame example_world) \<and>
      snd (snd ?r) = snd (snd (dispatch_method DragStarted example_event example_frame example_world))"
    using dis [THEN conjunct2, THEN conjunct2, THEN conjunct2, THEN conjunct2, THEN conjunct2] s
    by blast
  have frame: "fst (snd ?r) = ?g"
    using dis' [THEN conjunct2, THEN conjunct2, THEN conjunct2, THEN conjunct2, THEN conjunct1] .
  have r1: "fst ?r = Inr ()" and r3: "snd (snd ?r) = example_world"
    using same unfolding d by simp_all
  have r: "?r = (Inr (), ?g, example_world)"
    using r1 r3 frame by (simp only: prod_eq_iff fst_conv snd_conv simp_thms)
  show ?thesis
    using ne b o s r by (simp only: simp_thms)
qed

subsection \<open>Sending: auxiliary facts\<close>

lemma update_new_key: "k \<notin> fst ` set al \<Longrightarrow> AList.update k v al = al @ [(k, v)]"
  by (induction al) auto

lemma delete_absent: "map_of al k = None \<Longrightarrow> AList.delete k al = al"
  by (simp add: map_of_eq_None_iff)

lemma assigned_prototype_Cons:
  "assigned_prototype ((k, v) # xs) =
     (if k = ''__proto__''
      then (case v of JRef p \<Rightarrow> PrototypeAt p | JNull \<Rightarrow> NullPrototype | _ \<Rightarrow> ObjectPrototype)
      else assigned_prototype xs)"
  by (simp add: assigned_prototype_def)

lemma assigned_prototype_absent:
  assumes "''__proto__'' \<notin> fst ` set xs"
  shows "assigned_prototype xs = ObjectPrototype"
proof -
  have "map_of xs ''__proto__'' = None"
    using assms by (simp add: map_of_eq_None_iff)
  then show ?thesis
    by (simp add: assigned_prototype_def)
qed

lemma fold_set_property:
  "distinct (map fst (props acc @ xs)) \<Longrightarrow>
   ''__proto__'' \<notin> fst ` set (props acc) \<Longrightarrow>
   proto acc = ObjectPrototype \<or> ''__proto__'' \<notin> fst ` set xs \<Longrightarrow>
     fold (\<lambda>(k, v) ob. set_property h k v ob) xs acc =
       \<lparr>props = props acc @ filter (\<lambda>p. fst p \<noteq> ''__proto__'') xs,
        proto = (if ''__proto__'' \<in> fst ` set xs then assigned_prototype xs else proto acc)\<rparr>"
proof (induction xs arbitrary: acc)
  case Nil
  then show ?case by simp
next
  case (Cons x xs)
  obtain k v where x: "x = (k, v)" by (cases x)
  from Cons.prems(1) have new: "k \<notin> fst ` set (props acc)" and rest: "k \<notin> fst ` set xs"
    and dist: "distinct (map fst (props acc @ xs))"
    by (auto simp: x)
  show ?case
  proof (cases "k = ''__proto__''")
    case True
    from Cons.prems(3) have top: "proto acc = ObjectPrototype"
      by (simp add: x True)
    define acc' where "acc' = set_property h k v acc"
    have own: "map_of (props acc) ''__proto__'' = None"
      using Cons.prems(2) by (simp add: map_of_eq_None_iff)
    have p: "props acc' = props acc"
      and q: "proto acc' =
        (case v of JRef p \<Rightarrow> PrototypeAt p | JNull \<Rightarrow> NullPrototype | _ \<Rightarrow> ObjectPrototype)"
      by (simp_all add: acc'_def set_property_def True own top split: jsval.splits)
    have step: "fold (\<lambda>(k, v) ob. set_property h k v ob) (x # xs) acc =
        fold (\<lambda>(k, v) ob. set_property h k v ob) xs acc'"
      by (simp add: x acc'_def)
    have "fold (\<lambda>(k, v) ob. set_property h k v ob) xs acc' =
       \<lparr>props = props acc' @ filter (\<lambda>p. fst p \<noteq> ''__proto__'') xs,
        proto = (if ''__proto__'' \<in> fst ` set xs then assigned_prototype xs else proto acc')\<rparr>"
      using dist Cons.prems(2) rest by (intro Cons.IH) (simp_all add: p True)
    then show ?thesis
      unfolding step using rest by (simp add: x p q True assigned_prototype_Cons)
  next
    case False
    define acc' where "acc' = set_property h k v acc"
    have p: "props acc' = props acc @ [(k, v)]" and q: "proto acc' = proto acc"
      by (simp_all add: acc'_def set_property_def False update_new_key [OF new])
    have step: "fold (\<lambda>(k, v) ob. set_property h k v ob) (x # xs) acc =
        fold (\<lambda>(k, v) ob. set_property h k v ob) xs acc'"
      by (simp add: x acc'_def)
    have "fold (\<lambda>(k, v) ob. set_property h k v ob) xs acc' =
       \<lparr>props = props acc' @ filter (\<lambda>p. fst p \<noteq> ''__proto__'') xs,
        proto = (if ''__proto__'' \<in> fst ` set xs then assigned_prototype xs else proto acc')\<rparr>"
      using Cons.prems False by (intro Cons.IH) (auto simp: p q x)
    then show ?thesis
      unfolding step using False by (auto simp: x p q assigned_prototype_Cons)
  qed
qed

lemma assigned_properties:
  assumes "distinct (map fst (own_enumerable_properties h d))"
  shows "assigned h d =
           \<lparr>props = filter (\<lambda>p. fst p \<noteq> ''__proto__'') (own_enumerable_properties h d),
            proto = assigned_prototype (own_enumerable_properties h d)\<rparr>"
  using fold_set_property [of empty_object "own_enumerable_properties h d" "h @ [empty_object]"] assms
  by (simp add: assigned_def empty_object_def assigned_prototype_absent)

lemma own_enumerable_properties_alloc:
  "own_enumerable_properties (h @ [empty_object]) d = own_enumerable_properties h d"
  by (cases d) (auto simp: own_enumerable_properties_def obj_at_def nth_append empty_object_def)

lemma removeMethods_eq:
  "removeMethods d h =
     (JRef (length h),
      h @ [(assigned h d)\<lparr>props := AList.delete ''_configuratorContext'' (props (assigned h d))\<rparr>])"
proof -
  have 1: "Object_assign (length h) d (h @ [empty_object]) = h @ [assigned h d]"
    by (simp add: Object_assign_def own_enumerable_properties_alloc obj_at_def assigned_def)
  have 2: "obj_at (h @ [ob]) (length h) = ob" for ob
    by (simp add: obj_at_def)
  have 3: "map_of (props ob) ''_configuratorContext'' = None \<Longrightarrow>
      ob\<lparr>props := AList.delete ''_configuratorContext'' (props ob)\<rparr> = ob" for ob :: jsobject
    by (simp add: delete_absent)
  show ?thesis
    by (simp add: removeMethods_def Let_def 1 2 3 has_property_def delete_property_def)
qed

lemma sendMessage_eq:
  "contentWindow (nativeElement f) = Some win \<Longrightarrow>
     sendMessage nm d f w =
       (Inr (), posted f win \<lparr>name = nm, args = JRef (length (heap w))\<rparr>,
        w\<lparr>heap := heap w @
           [(assigned (heap w) d)
              \<lparr>props := AList.delete ''_configuratorContext'' (props (assigned (heap w) d))\<rparr>]\<rparr>)"
  by (simp add: sendMessage_def removeMethods_eq posted_def postMessage_def)

lemma sendMessage_no_window:
  "contentWindow (nativeElement f) = None \<Longrightarrow>
     sendMessage nm d f w =
       (Inl (Error ''Native element does not have a content window''), f, w)"
  by (simp add: sendMessage_def)

lemma delete_filter_copied:
  "AList.delete ''_configuratorContext'' (filter (\<lambda>p. fst p \<noteq> ''__proto__'') fs) = copied fs"
  by (induction fs) (auto simp: copied_def)

lemma map_of_copied:
  "map_of (copied fs) k =
     (if k = ''_configuratorContext'' \<or> k = ''__proto__'' then None else map_of fs k)"
  by (induction fs) (auto simp: copied_def)

lemma copied_id:
  "map_of fs ''_configuratorContext'' = None \<Longrightarrow> map_of fs ''__proto__'' = None \<Longrightarrow>
     copied fs = fs"
  by (induction fs) (auto simp: copied_def split: if_splits)

lemma sendMessage_object:
  assumes "contentWindow (nativeElement f) = Some win"
      and "a < length (heap w)"
      and "distinct (map fst (props (heap w ! a)))"
  shows "sendMessage nm (JRef a) f w =
           (Inr (), posted f win \<lparr>name = nm, args = JRef (length (heap w))\<rparr>,
            w\<lparr>heap := heap w @
               [\<lparr>props = copied (props (heap w ! a)),
                 proto = assigned_prototype (props (heap w ! a))\<rparr>]\<rparr>)"
proof -
  have o: "own_enumerable_properties (heap w) (JRef a) = props (heap w ! a)"
    using assms(2) by (simp add: own_enumerable_properties_def obj_at_def)
  show ?thesis
    using assms(3)
    by (simp add: sendMessage_eq [OF assms(1)] assigned_properties o delete_filter_copied)
qed

subsection \<open>The index keys of a string\<close>

lemma of_char_digit_char: "d < 10 \<Longrightarrow> of_char (digit_char d) = 48 + d"
  by (simp add: digit_char_def)

lemma digit_char_inj:
  assumes "a < 10" and "b < 10" and "digit_char a = digit_char b"
  shows "a = b"
proof -
  have "48 + a = (of_char (digit_char a) :: nat)"
    using assms(1) by (simp only: of_char_digit_char)
  also have "\<dots> = of_char (digit_char b)"
    by (simp only: assms(3))
  also have "\<dots> = 48 + b"
    using assms(2) by (simp only: of_char_digit_char)
  finally show ?thesis
    by simp
qed

lemma decimal_nonempty: "decimal n \<noteq> []"
  by (subst decimal.simps) simp

lemma decimal_last: "last (decimal n) = digit_char (n mod 10)"
  by (subst decimal.simps) simp

lemma decimal_butlast: "butlast (decimal n) = (if n < 10 then [] else decimal (n div 10))"
  by (subst decimal.simps) simp

lemma decimal_inj: "decimal m = decimal n \<Longrightarrow> m = n"
proof (induction m arbitrary: n rule: less_induct)
  case (less m)
  have "digit_char (m mod 10) = digit_char (n mod 10)"
    using less.prems decimal_last [of m] decimal_last [of n] by simp
  then have r: "m mod 10 = n mod 10"
    by (intro digit_char_inj) simp_all
  have b: "(if m < 10 then [] else decimal (m div 10)) = (if n < 10 then [] else decimal (n div 10))"
    using less.prems decimal_butlast [of m] decimal_butlast [of n] by simp
  show ?case
  proof (cases "m < 10")
    case True
    with b have "n < 10"
      using decimal_nonempty [of "n div 10"] by (auto split: if_splits)
    with True r show ?thesis by simp
  next
    case False
    with b have n: "\<not> n < 10" and e: "decimal (m div 10) = decimal (n div 10)"
      using decimal_nonempty [of "m div 10"] by (auto split: if_splits)
    from False have "m div 10 < m" by simp
    then have q: "m div 10 = n div 10"
      using e by (rule less.IH)
    have "m = 10 * (m div 10) + m mod 10"
      by simp
    also have "\<dots> = 10 * (n div 10) + n mod 10"
      by (simp only: q r)
    finally show ?thesis
      by simp
  qed
qed

lemma decimal_digits: "c \<in> set (decimal n) \<Longrightarrow> \<exists>d<10. c = digit_char d"
proof (induction n rule: decimal.induct)
  case (1 n)
  show ?case
  proof (cases "n < 10")
    case True
    with "1.prems" show ?thesis
      by (subst (asm) decimal.simps) auto
  next
    case False
    with "1.prems" have "c \<in> set (decimal (n div 10)) \<or> c = digit_char (n mod 10)"
      by (subst (asm) decimal.simps) auto
    then show ?thesis
    proof
      assume "c \<in> set (decimal (n div 10))"
      with False show ?thesis using "1.IH" by blast
    next
      assume "c = digit_char (n mod 10)"
      then show ?thesis by (intro exI [of _ "n mod 10"]) simp
    qed
  qed
qed

lemma decimal_no_underscore: "CHR ''_'' \<notin> set (decimal n)"
proof
  assume "CHR ''_'' \<in> set (decimal n)"
  then obtain d where "d < 10" and "CHR ''_'' = digit_char d"
    using decimal_digits by blast
  then have "of_char (CHR ''_'') = (48 + d :: nat)"
    using of_char_digit_char [of d] by simp
  with \<open>d < 10\<close> show False by simp
qed

lemma decimal_not_stripped: "decimal n \<noteq> ''_configuratorContext''" "decimal n \<noteq> ''__proto__''"
  using decimal_no_underscore [of n] by auto

lemma sendMessage_string:
  assumes "contentWindow (nativeElement f) = Some win"
  shows "sendMessage nm (JStr s) f w =
           (Inr (), posted f win \<lparr>name = nm, args = JRef (length (heap w))\<rparr>,
            w\<lparr>heap := heap w @ [plain (map (\<lambda>i. (decimal i, JStr [s ! i])) [0..<length s])]\<rparr>)"
proof -
  let ?xs = "map (\<lambda>i. (decimal i, JStr [s ! i])) [0..<length s]"
  have o: "own_enumerable_properties (heap w) (JStr s) = ?xs"
    by (simp add: own_enumerable_properties_def)
  have "inj_on decimal (set [0..<length s])"
    by (auto simp: inj_on_def dest: decimal_inj)
  then have d: "distinct (map fst ?xs)"
    by (simp add: distinct_map comp_def)
  have k: "fst p \<noteq> ''_configuratorContext'' \<and> fst p \<noteq> ''__proto__''" if "p \<in> set ?xs" for p
    using that decimal_not_stripped by auto
  then have c: "copied ?xs = ?xs"
    unfolding copied_def by (intro filter_True) blast
  have "''__proto__'' \<notin> fst ` set ?xs"
    using k by force
  then have a: "assigned_prototype ?xs = ObjectPrototype"
    by (rule assigned_prototype_absent)
  show ?thesis
    using d
    by (simp add: sendMessage_eq [OF assms] assigned_properties o delete_filter_copied c a plain_def
        del: map_map)
qed

lemma sendMessage_other:
  assumes "contentWindow (nativeElement f) = Some win"
      and "\<forall>a. d \<noteq> JRef a" and "\<forall>s. d \<noteq> JStr s"
  shows "sendMessage nm d f w =
           (Inr (), posted f win \<lparr>name = nm, args = JRef (length (heap w))\<rparr>,
            w\<lparr>heap := heap w @ [empty_object]\<rparr>)"
proof -
  have "own_enumerable_properties (heap w) d = []"
    using assms(2,3) by (cases d) (simp_all add: own_enumerable_properties_def)
  then have "assigned (heap w) d = empty_object"
    by (simp add: assigned_def)
  then show ?thesis
    by (simp add: sendMessage_eq [OF assms(1)] empty_object_def)
qed

lemma sendMessage_stripped:
  assumes "contentWindow (nativeElement f) = Some win"
  shows "fst (sendMessage nm d f w) = Inr ()"
    and "fst (snd (sendMessage nm d f w)) = posted f win \<lparr>name = nm, args = JRef (length (heap w))\<rparr>"
    and "snd (snd (sendMessage nm d f w)) =
           w\<lparr>heap := heap w @ [allocated (snd (snd (sendMessage nm d f w))) w]\<rparr>"
    and "map_of (props (allocated (snd (snd (sendMessage nm d f w))) w)) ''_configuratorContext'' = None"
  by (simp_all add: sendMessage_eq [OF assms] allocated_def delete_conv')

lemma sendMessage_allocated:
  assumes "contentWindow (nativeElement f) = Some win"
  shows "a < length (heap w) \<Longrightarrow> distinct (map fst (props (heap w ! a))) \<Longrightarrow>
           allocated (snd (snd (sendMessage nm (JRef a) f w))) w =
             \<lparr>props = copied (props (heap w ! a)),
              proto = assigned_prototype (props (heap w ! a))\<rparr>"
    and "allocated (snd (snd (sendMessage nm (JStr s) f w))) w =
           plain (map (\<lambda>i. (decimal i, JStr [s ! i])) [0..<length s])"
    and "\<forall>a. d \<noteq> JRef a \<Longrightarrow> \<forall>s. d \<noteq> JStr s \<Longrightarrow>
           allocated (snd (snd (sendMessage nm d f w))) w = empty_object"
  by (simp_all add: sendMessage_object [OF assms] sendMessage_string [OF assms]
      sendMessage_other [OF assms] allocated_def del: map_map)

subsection \<open>Outbound messages\<close>

text \<open>
  Claim C2, as amended. With a content window, \<^verbatim>\<open>sendConfigurationUpdated\<close> of a
  configuration object posts one envelope named \<^verbatim>\<open>elfsquad.configurationUpdated\<close> whose
  \<^verbatim>\<open>args\<close> is a newly allocated object. That object has the fields of the configuration
  other than \<^verbatim>\<open>_configuratorContext\<close> and \<^verbatim>\<open>__proto__\<close>, in their order and with the same
  values, and has neither of the two as a field of its own; a field \<^verbatim>\<open>__proto__\<close> of the
  configuration goes to the prototype setter instead. When the configuration has neither
  field, the new object has exactly the fields of the configuration.
\<close>
theorem configuration_updated_envelope:
  assumes "contentWindow (nativeElement f) = Some win"
      and "a < length (heap w)"
      and "distinct (map fst (props (heap w ! a)))"
  shows "sendConfigurationUpdated (JRef a) f w =
           (Inr (),
            posted f win \<lparr>name = ''elfsquad.configurationUpdated'', args = JRef (length (heap w))\<rparr>,
            w\<lparr>heap := heap w @
               [\<lparr>props = copied (props (heap w ! a)),
                 proto = assigned_prototype (props (heap w ! a))\<rparr>]\<rparr>) \<and>
         map_of (copied (props (heap w ! a))) ''_configuratorContext'' = None \<and>
         map_of (copied (props (heap w ! a))) ''__proto__'' = None \<and>
         (\<forall>k. k \<noteq> ''_configuratorContext'' \<and> k \<noteq> ''__proto__'' \<longrightarrow>
            map_of (copied (props (heap w ! a))) k = map_of (props (heap w ! a)) k) \<and>
         (map_of (props (heap w ! a)) ''_configuratorContext'' = None \<and>
          map_of (props (heap w ! a)) ''__proto__'' = None \<longrightarrow>
            copied (props (heap w ! a)) = props (heap w ! a))"
  using assms
  by (simp add: sendConfigurationUpdated_def sendMessage_object map_of_copied copied_id)

text \<open>A configuration with the back-reference, and an object with neither field.\<close>

theorem configuration_updated_envelope_witness:
  "contentWindow (nativeElement example_frame) = Some [] \<and>
   2 < length (heap example_world) \<and> distinct (map fst (props (heap example_world ! 2))) \<and>
   sendConfigurationUpdated (JRef 2) example_frame example_world =
     (Inr (),
      posted example_frame [] \<lparr>name = ''elfsquad.configurationUpdated'', args = JRef 9\<rparr>,
      example_world\<lparr>heap := example_heap @ [plain [(''id'', JStr ''c1''), (''steps'', JRef 4)]]\<rparr>) \<and>
   4 < length (heap example_world) \<and> distinct (map fst (props (heap example_world ! 4))) \<and>
   map_of (props (heap example_world ! 4)) ''_configuratorContext'' = None \<and>
   map_of (props (heap example_world ! 4)) ''__proto__'' = None \<and>
   sendConfigurationUpdated (JRef 4) example_frame example_world =
     (Inr (),
      posted example_frame [] \<lparr>name = ''elfsquad.configurationUpdated'', args = JRef 9\<rparr>,
      example_world\<lparr>heap := example_heap @
         [plain [(''id'', JStr ''s1''), (''title'', JStr ''Colour'')]]\<rparr>)"
proof -
  have h1: "contentWindow (nativeElement example_frame) = Some []"
    by (simp add: example_frame_def)
  have v: "props (example_heap ! 2) =
             [(''id'', JStr ''c1''), (''_configuratorContext'', JRef 3), (''steps'', JRef 4)]"
          "props (example_heap ! 4) = [(''id'', JStr ''s1''), (''title'', JStr ''Colour'')]"
          "length example_heap = 9" "heap example_world = example_heap"
    by (simp_all add: example_world_def example_heap_def plain_def)
  have h2: "2 < length (heap example_world)" "4 < length (heap example_world)"
    by (simp_all add: v)
  have h3: "distinct (map fst (props (heap example_world ! 2)))"
    "distinct (map fst (props (heap example_world ! 4)))"
    by (simp_all add: v)
  have h4: "map_of (props (heap example_world ! 4)) ''_configuratorContext'' = None"
    "map_of (props (heap example_world ! 4)) ''__proto__'' = None"
    by (simp_all add: v)
  show ?thesis
    using configuration_updated_envelope [OF h1 h2(1) h3(1)]
      configuration_updated_envelope [OF h1 h2(2) h3(2)] h1 h2 h3 h4
    by (simp add: v copied_def assigned_prototype_def plain_def)
qed

text \<open>A configuration without the back-reference but with an own field \<^verbatim>\<open>__proto__\<close>
  is sent with a field removed.\<close>

theorem configuration_with_proto_counterexample:
  "props (obj_at (heap example_world) 6) = [(''__proto__'', JNum 5), (''id'', JStr ''x'')] \<and>
   map_of (props (obj_at (heap example_world) 6)) ''_configuratorContext'' = None \<and>
   sendConfigurationUpdated (JRef 6) example_frame example_world =
     (Inr (),
      posted example_frame [] \<lparr>name = ''elfsquad.configurationUpdated'', args = JRef 9\<rparr>,
      example_world\<lparr>heap := example_heap @ [plain [(''id'', JStr ''x'')]]\<rparr>) \<and>
   props (plain [(''id'', JStr ''x'')]) \<noteq> props (obj_at (heap example_world) 6)"
proof -
  have h1: "contentWindow (nativeElement example_frame) = Some []"
    by (simp add: example_frame_def)
  have v: "props (example_heap ! 6) = [(''__proto__'', JNum 5), (''id'', JStr ''x'')]"
          "length example_heap = 9" "heap example_world = example_heap"
    by (simp_all add: example_world_def example_heap_def plain_def)
  have s: "sendMessage nm (JRef 6) example_frame example_world =
      (Inr (), posted example_frame [] \<lparr>name = nm, args = JRef 9\<rparr>,
       example_world\<lparr>heap := example_heap @ [plain [(''id'', JStr ''x'')]]\<rparr>)" for nm
    using sendMessage_object [OF h1, of 6 example_world nm]
    by (simp add: v copied_def assigned_prototype_def plain_def)
  show ?thesis
    by (simp add: sendConfigurationUpdated_def s obj_at_def v plain_def)
qed

text \<open>
  Claim C3, as amended. With a content window, \<^verbatim>\<open>sendStepChanged\<close> of a step object posts
  one envelope named \<^verbatim>\<open>elfsquad.stepChanged\<close> whose \<^verbatim>\<open>args\<close> is a newly allocated object
  with the fields and values of the step other than \<^verbatim>\<open>_configuratorContext\<close> and
  \<^verbatim>\<open>__proto__\<close>, neither of which it has as a field of its own. When the step has neither
  field, \<^verbatim>\<open>args\<close> has exactly the fields and values of the step, and the prototype of an
  object literal.
\<close>
theorem step_changed_envelope:
  assumes "contentWindow (nativeElement f) = Some win"
      and "a < length (heap w)"
      and "distinct (map fst (props (heap w ! a)))"
  shows "sendStepChanged (JRef a) f w =
           (Inr (),
            posted f win \<lparr>name = ''elfsquad.stepChanged'', args = JRef (length (heap w))\<rparr>,
            w\<lparr>heap := heap w @
               [\<lparr>props = copied (props (heap w ! a)),
                 proto = assigned_prototype (props (heap w ! a))\<rparr>]\<rparr>) \<and>
         map_of (copied (props (heap w ! a))) ''_configuratorContext'' = None \<and>
         map_of (copied (props (heap w ! a))) ''__proto__'' = None \<and>
         (\<forall>k. k \<noteq> ''_configuratorContext'' \<and> k \<noteq> ''__proto__'' \<longrightarrow>
            map_of (copied (props (heap w ! a))) k = map_of (props (heap w ! a)) k) \<and>
         (map_of (props (heap w ! a)) ''_configuratorContext'' = None \<and>
          map_of (props (heap w ! a)) ''__proto__'' = None \<longrightarrow>
            copied (props (heap w ! a)) = props (heap w ! a) \<and>
            assigned_prototype (props (heap w ! a)) = ObjectPrototype)"
  using assms
  by (simp add: sendStepChanged_def sendMessage_object map_of_copied copied_id
      assigned_prototype_def)

text \<open>A step with neither field is copied whole.\<close>

theorem step_changed_envelope_witness:
  "contentWindow (nativeElement example_frame) = Some [] \<and>
   4 < length (heap example_world) \<and> distinct (map fst (props (heap example_world ! 4))) \<and>
   map_of (props (heap example_world ! 4)) ''_configuratorContext'' = None \<and>
   map_of (props (heap example_world ! 4)) ''__proto__'' = None \<and>
   sendStepChanged (JRef 4) example_frame example_world =
     (Inr (),
      posted example_frame [] \<lparr>name = ''elfsquad.stepChanged'', args = JRef 9\<rparr>,
      example_world\<lparr>heap := example_heap @
         [plain [(''id'', JStr ''s1''), (''title'', JStr ''Colour'')]]\<rparr>)"
proof -
  have h1: "contentWindow (nativeElement example_frame) = Some []"
    by (simp add: example_frame_def)
  have v: "props (example_heap ! 4) = [(''id'', JStr ''s1''), (''title'', JStr ''Colour'')]"
          "length example_heap = 9" "heap example_world = example_heap"
    by (simp_all add: example_world_def example_heap_def plain_def)
  have h2: "4 < length (heap example_world)"
    by (simp add: v)
  have h3: "distinct (map fst (props (heap example_world ! 4)))"
    by (simp add: v)
  have h4: "map_of (props (heap example_world ! 4)) ''_configuratorContext'' = None"
    "map_of (props (heap example_world ! 4)) ''__proto__'' = None"
    by (simp_all add: v)
  show ?thesis
    using step_changed_envelope [OF h1 h2 h3] h1 h2 h3 h4
    by (simp add: v plain_def)
qed

text \<open>A step with own fields \<^verbatim>\<open>__proto__\<close> and \<^verbatim>\<open>_configuratorContext\<close> is sent without
  them, so that \<^verbatim>\<open>args\<close> and the step differ.\<close>

theorem step_with_back_reference_counterexample:
  "props (obj_at (heap example_world) 7) =
     [(''__proto__'', JNum 5), (''_configuratorContext'', JNum 1), (''id'', JStr ''s3'')] \<and>
   sendStepChanged (JRef 7) example_frame example_world =
     (Inr (),
      posted example_frame [] \<lparr>name = ''elfsquad.stepChanged'', args = JRef 9\<rparr>,
      example_world\<lparr>heap := example_heap @ [plain [(''id'', JStr ''s3'')]]\<rparr>) \<and>
   props (plain [(''id'', JStr ''s3'')]) \<noteq> props (obj_at (heap example_world) 7)"
proof -
  have h1: "contentWindow (nativeElement example_frame) = Some []"
    by (simp add: example_frame_def)
  have v: "props (example_heap ! 7) =
            [(''__proto__'', JNum 5), (''_configuratorContext'', JNum 1), (''id'', JStr ''s3'')]"
          "length example_heap = 9" "heap example_world = example_heap"
    by (simp_all add: example_world_def example_heap_def plain_def)
  have s: "sendMessage nm (JRef 7) example_frame example_world =
      (Inr (), posted example_frame [] \<lparr>name = nm, args = JRef 9\<rparr>,
       example_world\<lparr>heap := example_heap @ [plain [(''id'', JStr ''s3'')]]\<rparr>)" for nm
    using sendMessage_object [OF h1, of 7 example_world nm]
    by (simp add: v copied_def assigned_prototype_def plain_def)
  show ?thesis
    by (simp add: sendStepChanged_def s obj_at_def v plain_def)
qed

text \<open>
  Claim C10, as amended. With a content window, for every payload and for both send
  methods, the \<^verbatim>\<open>args\<close> of the posted envelope is the address of one newly allocated
  object: the heap grows by that object and keeps every earlier object as it was. The new
  object never has a field \<^verbatim>\<open>_configuratorContext\<close> of its own. For a payload object it
  holds the fields of the payload other than \<^verbatim>\<open>_configuratorContext\<close> and \<^verbatim>\<open>__proto__\<close>, in
  their order and with the same values, and its prototype is what the setter of
  \<^verbatim>\<open>__proto__\<close> leaves; for a string it holds one field for each character, named by its
  index; for any other primitive it is empty.
\<close>
theorem outbound_args_stripped_copy:
  assumes "contentWindow (nativeElement f) = Some win"
  shows "\<forall>(send, nm) \<in> {(sendConfigurationUpdated, ''elfsquad.configurationUpdated''),
                          (sendStepChanged, ''elfsquad.stepChanged'')}.
           fst (send d f w) = Inr () \<and>
           fst (snd (send d f w)) = posted f win \<lparr>name = nm, args = JRef (length (heap w))\<rparr> \<and>
           snd (snd (send d f w)) = w\<lparr>heap := heap w @ [allocated (snd (snd (send d f w))) w]\<rparr> \<and>
           map_of (props (allocated (snd (snd (send d f w))) w)) ''_configuratorContext'' = None \<and>
           (\<forall>a. d = JRef a \<and> a < length (heap w) \<and> distinct (map fst (props (heap w ! a))) \<longrightarrow>
              allocated (snd (snd (send d f w))) w =
                \<lparr>props = copied (props (heap w ! a)),
                 proto = assigned_prototype (props (heap w ! a))\<rparr>) \<and>
           (\<forall>s. d = JStr s \<longrightarrow>
              allocated (snd (snd (send d f w))) w =
                plain (map (\<lambda>i. (decimal i, JStr [s ! i])) [0..<length s])) \<and>
           ((\<forall>a. d \<noteq> JRef a) \<and> (\<forall>s. d \<noteq> JStr s) \<longrightarrow>
              allocated (snd (snd (send d f w))) w = empty_object)"
proof -
  have "fst (sendMessage nm d f w) = Inr () \<and>
        fst (snd (sendMessage nm d f w)) = posted f win \<lparr>name = nm, args = JRef (length (heap w))\<rparr> \<and>
        snd (snd (sendMessage nm d f w)) =
          w\<lparr>heap := heap w @ [allocated (snd (snd (sendMessage nm d f w))) w]\<rparr> \<and>
        map_of (props (allocated (snd (snd (sendMessage nm d f w))) w)) ''_configuratorContext'' = None \<and>
        (\<forall>a. d = JRef a \<and> a < length (heap w) \<and> distinct (map fst (props (heap w ! a))) \<longrightarrow>
           allocated (snd (snd (sendMessage nm d f w))) w =
             \<lparr>props = copied (props (heap w ! a)),
              proto = assigned_prototype (props (heap w ! a))\<rparr>) \<and>
        (\<forall>s. d = JStr s \<longrightarrow>
           allocated (snd (snd (sendMessage nm d f w))) w =
             plain (map (\<lambda>i. (decimal i, JStr [s ! i])) [0..<length s])) \<and>
        ((\<forall>a. d \<noteq> JRef a) \<and> (\<forall>s. d \<noteq> JStr s) \<longrightarrow>
           allocated (snd (snd (sendMessage nm d f w))) w = empty_object)" for nm
    using sendMessage_stripped [OF assms] sendMessage_allocated [OF assms]
    by (intro conjI allI impI) (simp_all del: map_map)
  then show ?thesis
    unfolding sendConfigurationUpdated_def [abs_def] sendStepChanged_def [abs_def]
    by (simp del: map_map)
qed

text \<open>Both send methods strip the field from the same object; a string and \<^verbatim>\<open>null\<close>.\<close>

theorem outbound_args_stripped_copy_witness:
  "contentWindow (nativeElement example_frame) = Some [] \<and>
   5 < length (heap example_world) \<and>
   distinct (map fst (props (heap example_world ! 5))) \<and>
   fst (sendStepChanged (JRef 5) example_frame example_world) = Inr () \<and>
   fst (snd (sendStepChanged (JRef 5) example_frame example_world)) =
     posted example_frame [] \<lparr>name = ''elfsquad.stepChanged'', args = JRef 9\<rparr> \<and>
   allocated (snd (snd (sendStepChanged (JRef 5) example_frame example_world))) example_world =
     plain [(''id'', JStr ''s2'')] \<and>
   allocated (snd (snd (sendConfigurationUpdated (JRef 5) example_frame example_world)))
       example_world =
     plain [(''id'', JStr ''s2'')] \<and>
   allocated (snd (snd (sendConfigurationUpdated (JStr ''ab'') example_frame example_world)))
       example_world =
     plain [(''0'', JStr ''a''), (''1'', JStr ''b'')] \<and>
   allocated (snd (snd (sendStepChanged JNull example_frame example_world))) example_world =
     empty_object"
proof -
  have h1: "contentWindow (nativeElement example_frame) = Some []"
    by (simp add: example_frame_def)
  have v: "props (example_heap ! 5) = [(''_configuratorContext'', JNum 1), (''id'', JStr ''s2'')]"
          "length example_heap = 9" "heap example_world = example_heap"
    by (simp_all add: example_world_def example_heap_def plain_def)
  have m: "decimal 0 = ''0''" "decimal (Suc 0) = ''1''"
    by code_simp+
  show ?thesis
    using outbound_args_stripped_copy [OF h1, of "JRef 5" example_world]
      outbound_args_stripped_copy [OF h1, of "JStr ''ab''" example_world]
      outbound_args_stripped_copy [OF h1, of JNull example_world] h1
    by (simp add: v m copied_def assigned_prototype_def plain_def del: map_map)
qed

text \<open>A payload whose own field \<^verbatim>\<open>__proto__\<close> is an object: the field is not copied, the
  object becomes the prototype of \<^verbatim>\<open>args\<close>.\<close>

theorem payload_with_proto_counterexample:
  "props (obj_at (heap example_world) 8) = [(''__proto__'', JRef 2), (''id'', JStr ''y'')] \<and>
   sendStepChanged (JRef 8) example_frame example_world =
     (Inr (),
      posted example_frame [] \<lparr>name = ''elfsquad.stepChanged'', args = JRef 9\<rparr>,
      example_world\<lparr>heap := example_heap @
         [\<lparr>props = [(''id'', JStr ''y'')], proto = PrototypeAt 2\<rparr>]\<rparr>) \<and>
   map_of (props (obj_at (heap example_world) 8)) ''__proto__'' = Some (JRef 2) \<and>
   map_of [(''id'', JStr ''y'')] ''__proto__'' = None"
proof -
  have h1: "contentWindow (nativeElement example_frame) = Some []"
    by (simp add: example_frame_def)
  have v: "props (example_heap ! 8) = [(''__proto__'', JRef 2), (''id'', JStr ''y'')]"
          "length example_heap = 9" "heap example_world = example_heap"
    by (simp_all add: example_world_def example_heap_def plain_def)
  have s: "sendMessage nm (JRef 8) example_frame example_world =
      (Inr (), posted example_frame [] \<lparr>name = nm, args = JRef 9\<rparr>,
       example_world\<lparr>heap := example_heap @
          [\<lparr>props = [(''id'', JStr ''y'')], proto = PrototypeAt 2\<rparr>]\<rparr>)" for nm
    using sendMessage_object [OF h1, of 8 example_world nm]
    by (simp add: v copied_def assigned_prototype_def)
  show ?thesis
    by (simp add: sendStepChanged_def s obj_at_def v)
qed

subsection \<open>Failures\<close>

text \<open>
  Claim C7. Constructing a frame with a selector for which the document has no element
  fails with the error \<^verbatim>\<open>Container not found\<close>, and with a selector whose element is not an
  \<^verbatim>\<open>HTMLElement\<close> it fails with \<^verbatim>\<open>Container must be an HTMLElement\<close>. Both are the spec's
  container resolution error; in both cases the result is the error, no frame, and the
  page is as before.
\<close>
theorem construction_fails_without_container:
  "(options_container options = Selector s \<and> doc s = None \<longrightarrow>
      new_VisualizationFrame doc options w = (Inl (Error ''Container not found''), w) \<and>
      ContainerResolutionError (Error ''Container not found'')) \<and>
   (options_container options = Selector s \<and> doc s = Some el \<and> \<not> instanceof_HTMLElement el \<longrightarrow>
      new_VisualizationFrame doc options w = (Inl (Error ''Container must be an HTMLElement''), w) \<and>
      ContainerResolutionError (Error ''Container must be an HTMLElement''))"
  by (simp add: new_VisualizationFrame_def getContainer_def ContainerResolutionError_def)

text \<open>A selector that matches nothing, and one that matches an SVG element.\<close>

theorem construction_fails_without_container_witness:
  "options_container (example_options\<lparr>options_container := Selector ''#missing''\<rparr>) =
     Selector ''#missing'' \<and>
   example_document ''#missing'' = None \<and>
   new_VisualizationFrame example_document
       (example_options\<lparr>options_container := Selector ''#missing''\<rparr>) example_world =
     (Inl (Error ''Container not found''), example_world) \<and>
   options_container (example_options\<lparr>options_container := Selector ''#icon''\<rparr>) =
     Selector ''#icon'' \<and>
   example_document ''#icon'' = Some svg_icon \<and>
   \<not> instanceof_HTMLElement svg_icon \<and>
   new_VisualizationFrame example_document
       (example_options\<lparr>options_container := Selector ''#icon''\<rparr>) example_world =
     (Inl (Error ''Container must be an HTMLElement''), example_world)"
proof -
  have h1: "options_container (example_options\<lparr>options_container := Selector ''#missing''\<rparr>) =
     Selector ''#missing''"
    by simp
  have h2: "example_document ''#missing'' = None"
    by (simp add: example_document_def)
  have h3: "options_container (example_options\<lparr>options_container := Selector ''#icon''\<rparr>) =
     Selector ''#icon''"
    by simp
  have h4: "example_document ''#icon'' = Some svg_icon"
    by (simp add: example_document_def)
  have h5: "\<not> instanceof_HTMLElement svg_icon"
    by (simp add: svg_icon_def)
  show ?thesis
    using construction_fails_without_container
        [of "example_options\<lparr>options_container := Selector ''#missing''\<rparr>" "''#missing''"
            example_document example_world svg_icon]
      construction_fails_without_container
        [of "example_options\<lparr>options_container := Selector ''#icon''\<rparr>" "''#icon''"
            example_document example_world svg_icon]
      h1 h2 h3 h4 h5
    by simp
qed

text \<open>
  Claim C8. When the iframe has no content window, \<^verbatim>\<open>sendConfigurationUpdated\<close> and
  \<^verbatim>\<open>sendStepChanged\<close> fail with the error \<^verbatim>\<open>Native element does not have a content window\<close>,
  the spec's missing channel error, and leave the frame, with its callback registry, and
  the heap as they were: nothing is posted and nothing is allocated.
\<close>
theorem send_without_content_window:
  assumes "contentWindow (nativeElement f) = None"
  shows "sendConfigurationUpdated cfg f w =
           (Inl (Error ''Native element does not have a content window''), f, w) \<and>
         sendStepChanged step f w =
           (Inl (Error ''Native element does not have a content window''), f, w) \<and>
         NoChannelError (Error ''Native element does not have a content window'')"
  using assms
  by (simp add: sendConfigurationUpdated_def sendStepChanged_def sendMessage_no_window
      NoChannelError_def)

text \<open>A detached frame with one registered callback.\<close>

theorem send_without_content_window_witness:
  "contentWindow (nativeElement (onDragStarted returning_callback detached_frame)) = None \<and>
   sendConfigurationUpdated (JRef 2) (onDragStarted returning_callback detached_frame) example_world =
     (Inl (Error ''Native element does not have a content window''),
      onDragStarted returning_callback detached_frame, example_world) \<and>
   sendStepChanged (JRef 4) (onDragStarted returning_callback detached_frame) example_world =
     (Inl (Error ''Native element does not have a content window''),
      onDragStarted returning_callback detached_frame, example_world)"
proof -
  have h: "contentWindow (nativeElement (onDragStarted returning_callback detached_frame)) = None"
    by (simp add: onDragStarted_def addCallback_other_fields detached_frame_def)
  show ?thesis
    using send_without_content_window [OF h, of "JRef 2" example_world "JRef 4"] h by simp
qed

end
